theory Spec2Isabelle
  imports Complex_Main "HOL-Library.Word"
begin

section \<open>Python values used by the DQN agent\<close>

text \<open>
  The agent module \<^verbatim>\<open>acme/agents/jax/dqn/agent.py\<close> is composition code: a dataclass of
  hyperparameters (\<^verbatim>\<open>DQNConfig\<close>), the primary constructor \<^verbatim>\<open>DQNFromConfig.__init__\<close> and
  the legacy constructor \<^verbatim>\<open>DQN.__init__\<close>. Python integers are modelled as \<open>int\<close>, Python
  floats as binary64 values, exceptions as the left summand of a result type, and the
  objects the constructors create or share live in an explicit store.
\<close>

datatype py_error =
  TypeError | AttributeError | ZeroDivisionError | OverflowError | ValueError
| FrozenInstanceError

subsection \<open>Floats\<close>

text \<open>
  A binary64 value is a finite rational, negative zero, an infinity or NaN;
  \<open>Finite 0\<close> is \<open>+0.0\<close>. Arithmetic results are rounded to the nearest representable
  value, ties to even, by \<open>to_double\<close>: the unit in the last place of a magnitude \<open>q\<close> with
  \<open>2 ^ k \<le> q < 2 ^ (k + 1)\<close> is \<open>2 ^ (k - 52)\<close>, and never less than \<open>2 ^ - 1074\<close>.
\<close>

datatype pyfloat = Finite rat | NegZero | PosInf | NegInf | NaN

function bit_length :: "int \<Rightarrow> int" where
  "bit_length n = (if n \<le> 0 then 0 else 1 + bit_length (n div 2))"
  by pat_completeness auto
termination
  by (relation "measure nat") auto

declare bit_length.simps [simp del]

definition ilog2 :: "rat \<Rightarrow> int" where
  "ilog2 q = (if 1 \<le> q then bit_length \<lfloor>q\<rfloor> - 1
              else - bit_length (\<lceil>1 / q\<rceil> - 1))"

definition round_half_even :: "rat \<Rightarrow> int" where
  "round_half_even q =
     (let f = \<lfloor>q\<rfloor>; d = q - of_int f
      in if d < 1 / 2 then f else if 1 / 2 < d then f + 1
         else if even f then f else f + 1)"

definition round_magnitude :: "rat \<Rightarrow> rat" where
  "round_magnitude q =
     (let e = max (ilog2 q - 52) (- 1074)
      in of_int (round_half_even (q / 2 powi e)) * 2 powi e)"

definition signed_zero :: "bool \<Rightarrow> pyfloat" where
  "signed_zero neg = (if neg then NegZero else Finite 0)"

definition signed_inf :: "bool \<Rightarrow> pyfloat" where
  "signed_inf neg = (if neg then NegInf else PosInf)"

definition to_double :: "bool \<Rightarrow> rat \<Rightarrow> pyfloat" where
  "to_double neg q =
     (if q = 0 then signed_zero neg
      else let r = round_magnitude q
           in if 2 ^ 1024 \<le> r then signed_inf neg
              else if r = 0 then signed_zero neg
              else Finite (if neg then - r else r))"

text \<open>A float literal of the source, such as \<^verbatim>\<open>0.05\<close> or \<^verbatim>\<open>1e-3\<close>, denotes the double
  nearest to the decimal it spells.\<close>

definition float_lit :: "rat \<Rightarrow> pyfloat" where
  "float_lit q = to_double (q < 0) \<bar>q\<bar>"

fun is_zero :: "pyfloat \<Rightarrow> bool" where
  "is_zero (Finite r) = (r = 0)"
| "is_zero NegZero = True"
| "is_zero _ = False"

fun is_inf :: "pyfloat \<Rightarrow> bool" where
  "is_inf PosInf = True"
| "is_inf NegInf = True"
| "is_inf _ = False"

fun is_negative :: "pyfloat \<Rightarrow> bool" where
  "is_negative (Finite r) = (r < 0)"
| "is_negative NegZero = True"
| "is_negative NegInf = True"
| "is_negative _ = False"

fun magnitude :: "pyfloat \<Rightarrow> rat" where
  "magnitude (Finite r) = \<bar>r\<bar>"
| "magnitude _ = 0"

text \<open>Conversion of an \<^verbatim>\<open>int\<close> operand to \<^verbatim>\<open>float\<close>: rounded to 53 bits, and
  \<^verbatim>\<open>OverflowError\<close> ("int too large to convert to float") beyond the largest double.\<close>

definition int_to_float :: "int \<Rightarrow> py_error + pyfloat" where
  "int_to_float n =
     (if n = 0 then Inr (Finite 0)
      else let r = round_magnitude (of_int \<bar>n\<bar>)
           in if 2 ^ 1024 \<le> r then Inl OverflowError
              else Inr (Finite (if n < 0 then - r else r)))"

text \<open>IEEE division of two doubles, the divisor not a zero.\<close>

definition ieee_div :: "pyfloat \<Rightarrow> pyfloat \<Rightarrow> pyfloat" where
  "ieee_div a b =
     (let neg = (is_negative a \<noteq> is_negative b)
      in if a = NaN \<or> b = NaN then NaN
         else if is_inf a then (if is_inf b then NaN else signed_inf neg)
         else if is_inf b then signed_zero neg
         else to_double neg (magnitude a / magnitude b))"

text \<open>Python's \<^verbatim>\<open>float / float\<close>: division by \<open>0.0\<close> or \<open>-0.0\<close> raises.\<close>

definition float_truediv :: "pyfloat \<Rightarrow> pyfloat \<Rightarrow> py_error + pyfloat" where
  "float_truediv a b = (if is_zero b then Inl ZeroDivisionError else Inr (ieee_div a b))"

text \<open>Python's \<^verbatim>\<open>int / float\<close>: the integer is converted first, then the floats are
  divided.\<close>

definition py_truediv :: "int \<Rightarrow> pyfloat \<Rightarrow> py_error + pyfloat" where
  "py_truediv n b =
     (case int_to_float n of Inl e \<Rightarrow> Inl e | Inr a \<Rightarrow> float_truediv a b)"

text \<open>Float comparison: false whenever an operand is NaN; the two zeros compare equal.\<close>

fun float_value :: "pyfloat \<Rightarrow> rat" where
  "float_value (Finite r) = r"
| "float_value _ = 0"

definition float_le :: "pyfloat \<Rightarrow> pyfloat \<Rightarrow> bool" where
  "float_le a b =
     (a \<noteq> NaN \<and> b \<noteq> NaN \<and>
      (a = NegInf \<or> b = PosInf \<or>
       (a \<noteq> PosInf \<and> b \<noteq> NegInf \<and> float_value a \<le> float_value b)))"

definition float_lt :: "pyfloat \<Rightarrow> pyfloat \<Rightarrow> bool" where
  "float_lt a b = (float_le a b \<and> \<not> float_le b a)"

section \<open>The configuration record\<close>

text \<open>
  \<^verbatim>\<open>DQNConfig\<close> (lines 32-52) is a plain \<^verbatim>\<open>@dataclasses.dataclass\<close>: fourteen fields, each
  with a default, and the generated \<^verbatim>\<open>__init__\<close> that takes them as keyword arguments.
  The field types follow the annotations of the source.
\<close>

record DQNConfig =
  epsilon :: pyfloat
  samples_per_insert :: pyfloat
  seed :: int
  learning_rate :: pyfloat
  discount :: pyfloat
  n_step :: int
  target_update_period :: int
  max_gradient_norm :: pyfloat
  batch_size :: int
  min_replay_size :: int
  max_replay_size :: int
  importance_sampling_exponent :: pyfloat
  priority_exponent :: pyfloat
  prefetch_size :: int

definition DQNConfig_defaults :: DQNConfig where
  "DQNConfig_defaults =
     \<lparr> epsilon = float_lit (5 / 100),
       samples_per_insert = float_lit (5 / 10),
       seed = 1,
       learning_rate = float_lit (1 / 1000),
       discount = float_lit (99 / 100),
       n_step = 5,
       target_update_period = 100,
       max_gradient_norm = PosInf,
       batch_size = 256,
       min_replay_size = 1000,
       max_replay_size = 1000000,
       importance_sampling_exponent = float_lit (2 / 10),
       priority_exponent = float_lit (6 / 10),
       prefetch_size = 4 \<rparr>"

text \<open>One keyword argument of a call: the name of a hyperparameter with a value of the
  annotated type.\<close>

datatype kwarg =
  Kw_epsilon pyfloat
| Kw_samples_per_insert pyfloat
| Kw_seed int
| Kw_learning_rate pyfloat
| Kw_discount pyfloat
| Kw_n_step int
| Kw_target_update_period int
| Kw_max_gradient_norm pyfloat
| Kw_batch_size int
| Kw_min_replay_size int
| Kw_max_replay_size int
| Kw_importance_sampling_exponent pyfloat
| Kw_priority_exponent pyfloat
| Kw_prefetch_size int

fun kw_name :: "kwarg \<Rightarrow> string" where
  "kw_name (Kw_epsilon v) = ''epsilon''"
| "kw_name (Kw_samples_per_insert v) = ''samples_per_insert''"
| "kw_name (Kw_seed v) = ''seed''"
| "kw_name (Kw_learning_rate v) = ''learning_rate''"
| "kw_name (Kw_discount v) = ''discount''"
| "kw_name (Kw_n_step v) = ''n_step''"
| "kw_name (Kw_target_update_period v) = ''target_update_period''"
| "kw_name (Kw_max_gradient_norm v) = ''max_gradient_norm''"
| "kw_name (Kw_batch_size v) = ''batch_size''"
| "kw_name (Kw_min_replay_size v) = ''min_replay_size''"
| "kw_name (Kw_max_replay_size v) = ''max_replay_size''"
| "kw_name (Kw_importance_sampling_exponent v) = ''importance_sampling_exponent''"
| "kw_name (Kw_priority_exponent v) = ''priority_exponent''"
| "kw_name (Kw_prefetch_size v) = ''prefetch_size''"

text \<open>A call binds each keyword to a parameter of that name. A keyword the callee does
  not declare, or one given twice, raises \<^verbatim>\<open>TypeError\<close>.\<close>

definition keywords_ok :: "string list \<Rightarrow> kwarg list \<Rightarrow> bool" where
  "keywords_ok params kwargs =
     (list_all (\<lambda>kw. kw_name kw \<in> set params) kwargs \<and> distinct (map kw_name kwargs))"

definition DQNConfig_fields :: "string list" where
  "DQNConfig_fields =
     [''epsilon'', ''samples_per_insert'', ''seed'', ''learning_rate'', ''discount'',
      ''n_step'', ''target_update_period'', ''max_gradient_norm'', ''batch_size'',
      ''min_replay_size'', ''max_replay_size'', ''importance_sampling_exponent'',
      ''priority_exponent'', ''prefetch_size'']"

text \<open>\<^verbatim>\<open>self.<field> = <value>\<close>: storing a value in a field of the instance.\<close>

fun setattr :: "kwarg \<Rightarrow> DQNConfig \<Rightarrow> DQNConfig" where
  "setattr (Kw_epsilon v) c = c\<lparr>epsilon := v\<rparr>"
| "setattr (Kw_samples_per_insert v) c = c\<lparr>samples_per_insert := v\<rparr>"
| "setattr (Kw_seed v) c = c\<lparr>seed := v\<rparr>"
| "setattr (Kw_learning_rate v) c = c\<lparr>learning_rate := v\<rparr>"
| "setattr (Kw_discount v) c = c\<lparr>discount := v\<rparr>"
| "setattr (Kw_n_step v) c = c\<lparr>n_step := v\<rparr>"
| "setattr (Kw_target_update_period v) c = c\<lparr>target_update_period := v\<rparr>"
| "setattr (Kw_max_gradient_norm v) c = c\<lparr>max_gradient_norm := v\<rparr>"
| "setattr (Kw_batch_size v) c = c\<lparr>batch_size := v\<rparr>"
| "setattr (Kw_min_replay_size v) c = c\<lparr>min_replay_size := v\<rparr>"
| "setattr (Kw_max_replay_size v) c = c\<lparr>max_replay_size := v\<rparr>"
| "setattr (Kw_importance_sampling_exponent v) c = c\<lparr>importance_sampling_exponent := v\<rparr>"
| "setattr (Kw_priority_exponent v) c = c\<lparr>priority_exponent := v\<rparr>"
| "setattr (Kw_prefetch_size v) c = c\<lparr>prefetch_size := v\<rparr>"

text \<open>The generated \<^verbatim>\<open>DQNConfig.__init__\<close>: every field starts from its default and is
  overwritten by the keyword given for it.\<close>

definition DQNConfig_init :: "kwarg list \<Rightarrow> py_error + DQNConfig" where
  "DQNConfig_init kwargs =
     (if keywords_ok DQNConfig_fields kwargs
      then Inr (fold setattr kwargs DQNConfig_defaults)
      else Inl TypeError)"

section \<open>The store and the components the agent is built from\<close>

text \<open>
  Objects that are shared or mutated after construction live in a store: a list of
  objects, the address of an object being its index. Creating an object appends it.
\<close>

type_synonym addr = nat

datatype array_spec = Array "nat list" string

text \<open>Modelled from the spec: \<^verbatim>\<open>acme.specs.EnvironmentSpec\<close>, the externally supplied
  description of observation and action shapes, is not part of this module and is taken
  as a read-only record of four array descriptions.\<close>

record environment_spec =
  observations :: array_spec
  actions :: array_spec
  rewards :: array_spec
  discounts :: array_spec

text \<open>\<^verbatim>\<open>hk.Transformed\<close>: only \<^verbatim>\<open>network.apply(params, observation)\<close> is used here; it
  returns the action values.\<close>

record ('p, 'o) network =
  net_apply :: "'p \<Rightarrow> 'o \<Rightarrow> pyfloat list"

text \<open>\<^verbatim>\<open>hk.PRNGSequence(seed)\<close>: a random-number sequence, identified by the seed it was
  initialised from.\<close>

datatype prng_sequence = PRNGSequence int

text \<open>\<^verbatim>\<open>optax\<close> gradient transformations, as the terms that build them.\<close>

datatype gradient_transformation =
  optax_clip_by_global_norm pyfloat
| optax_adam pyfloat
| optax_chain "gradient_transformation list"

text \<open>Modelled from the spec: what the optimizer does to the updates is library code
  outside this module. The spec says the gradients are clipped and then the adaptive
  optimizer is applied: a chain applies its stages from left to right. What a single
  stage computes is a parameter here (\<open>clip\<close> and \<open>adam\<close>).\<close>

fun apply_updates ::
  "(pyfloat \<Rightarrow> 'g \<Rightarrow> 'g) \<Rightarrow> (pyfloat \<Rightarrow> 'g \<Rightarrow> 'g) \<Rightarrow> gradient_transformation \<Rightarrow> 'g \<Rightarrow> 'g"
where
  "apply_updates clip adam (optax_clip_by_global_norm m) g = clip m g"
| "apply_updates clip adam (optax_adam lr) g = adam lr g"
| "apply_updates clip adam (optax_chain ts) g = fold (apply_updates clip adam) ts g"

text \<open>Modelled from the spec: the replay handles are not part of this module. The spec
  says the client, the adder and the data iterator are views onto the server: a client
  addresses a server, the adder writes through a client, the data iterator samples
  batches from a server.\<close>

datatype replay_client = Client addr

datatype adder = NStepTransitionAdder replay_client int pyfloat

datatype data_iterator = DataIterator addr int

fun client_server :: "replay_client \<Rightarrow> addr" where
  "client_server (Client a) = a"

fun adder_server :: "adder \<Rightarrow> addr" where
  "adder_server (NStepTransitionAdder c n d) = client_server c"

fun iterator_server :: "data_iterator \<Rightarrow> addr" where
  "iterator_server (DataIterator a b) = a"

record replay_server =
  rs_environment_spec :: environment_spec
  rs_max_replay_size :: int
  rs_min_replay_size :: int
  rs_priority_exponent :: pyfloat

record reverb_replay =
  server :: addr
  adder :: adder
  data_iterator :: data_iterator
  client :: replay_client

text \<open>Modelled from the spec: \<^verbatim>\<open>acme.jax.variable_utils.VariableClient\<close> is not part of
  this module. The spec calls it the variable client pointed at the learner, through
  which the actor pulls fresh parameters; the model keeps the learner it points at and
  the key.\<close>

datatype variable_client = VariableClient addr string

fun variable_source :: "variable_client \<Rightarrow> addr" where
  "variable_source (VariableClient l k) = l"

record ('p, 'o) learner =
  l_network :: "('p, 'o) network"
  l_obs_spec :: array_spec
  l_rng :: prng_sequence
  l_optimizer :: gradient_transformation
  l_discount :: pyfloat
  l_importance_sampling_exponent :: pyfloat
  l_target_update_period :: int
  l_iterator :: data_iterator
  l_replay_client :: replay_client

text \<open>The closure \<^verbatim>\<open>policy\<close> (lines 101-104) captures the variables \<^verbatim>\<open>network\<close> and
  \<^verbatim>\<open>config\<close> of the constructor; \<^verbatim>\<open>config\<close> is a reference to the configuration
  object.\<close>

record ('p, 'o) policy_closure =
  pc_network :: "('p, 'o) network"
  pc_config :: addr

record ('p, 'o) actor =
  a_policy :: "('p, 'o) policy_closure"
  a_rng :: prng_sequence
  a_variable_client :: variable_client
  a_adder :: adder

datatype ('p, 'o) obj =
  ConfigObj DQNConfig
| ServerObj replay_server
| LearnerObj "('p, 'o) learner"
| ActorObj "('p, 'o) actor"

type_synonym ('p, 'o) store = "('p, 'o) obj list"

definition lookup :: "('p, 'o) store \<Rightarrow> addr \<Rightarrow> ('p, 'o) obj option" where
  "lookup s a = (if a < length s then Some (s ! a) else None)"

definition new_object :: "('p, 'o) obj \<Rightarrow> ('p, 'o) store \<Rightarrow> addr \<times> ('p, 'o) store" where
  "new_object x s = (length s, s @ [x])"

text \<open>Reading a hyperparameter through \<^verbatim>\<open>config.<field>\<close>: an object that is not a
  configuration has no such attribute.\<close>

definition get_config :: "('p, 'o) store \<Rightarrow> addr \<Rightarrow> py_error + DQNConfig" where
  "get_config s c =
     (case lookup s c of Some (ConfigObj cfg) \<Rightarrow> Inr cfg | _ \<Rightarrow> Inl AttributeError)"

text \<open>The decorator of line 32 is \<^verbatim>\<open>@dataclasses.dataclass\<close> with no arguments, so the
  \<^verbatim>\<open>frozen\<close> parameter of the dataclass has its default, \<^verbatim>\<open>False\<close>.\<close>

definition DQNConfig_frozen :: bool where
  "DQNConfig_frozen = False"

text \<open>The statement \<^verbatim>\<open>config.<field> = <value>\<close> on a configuration object in the
  store: a frozen dataclass raises \<^verbatim>\<open>FrozenInstanceError\<close>, any other stores the
  value.\<close>

definition config_assign ::
  "addr \<Rightarrow> kwarg \<Rightarrow> ('p, 'o) store \<Rightarrow> py_error + ('p, 'o) store" where
  "config_assign c kw s =
     (case get_config s c of
        Inl e \<Rightarrow> Inl e
      | Inr cfg \<Rightarrow>
          if DQNConfig_frozen then Inl FrozenInstanceError
          else Inr (s[c := ConfigObj (setattr kw cfg)]))"

text \<open>The random-number sequences an object holds.\<close>

fun obj_rngs :: "('p, 'o) obj \<Rightarrow> prng_sequence list" where
  "obj_rngs (LearnerObj l) = [l_rng l]"
| "obj_rngs (ActorObj a) = [a_rng a]"
| "obj_rngs _ = []"

text \<open>Modelled from the spec: \<^verbatim>\<open>acme.agents.replay.make_reverb_prioritized_nstep_replay\<close>
  is not part of this module. The spec says that the replay-construction call builds a
  prioritized n-step replay buffer sized per the configuration and returns, as a group,
  a server that owns the buffered transitions, and a client, an adder and a data
  iterator that are views onto that server.\<close>

definition make_reverb_prioritized_nstep_replay ::
  "environment_spec \<Rightarrow> int \<Rightarrow> int \<Rightarrow> int \<Rightarrow> int \<Rightarrow> pyfloat \<Rightarrow> pyfloat \<Rightarrow> ('p, 'o) store
     \<Rightarrow> reverb_replay \<times> ('p, 'o) store" where
  "make_reverb_prioritized_nstep_replay environment_spec' n_step' batch_size' max_replay_size'
       min_replay_size' priority_exponent' discount' s =
     (let (srv, s') = new_object (ServerObj \<lparr> rs_environment_spec = environment_spec',
                                             rs_max_replay_size = max_replay_size',
                                             rs_min_replay_size = min_replay_size',
                                             rs_priority_exponent = priority_exponent' \<rparr>) s
      in (\<lparr> server = srv,
            adder = NStepTransitionAdder (Client srv) n_step' discount',
            data_iterator = DataIterator srv batch_size',
            client = Client srv \<rparr>, s'))"

text \<open>Modelled from the spec: \<^verbatim>\<open>acme.agents.jax.dqn.learning.DQNLearner\<close> is not part of
  this module. The spec says the learner is bound to the network, the replay iterator,
  the optimizer, the discount, the importance-sampling exponent and the target-update
  period; the model creates a learner object that holds the constructor's arguments.\<close>

definition DQNLearner ::
  "('p, 'o) network \<Rightarrow> array_spec \<Rightarrow> prng_sequence \<Rightarrow> gradient_transformation \<Rightarrow> pyfloat
     \<Rightarrow> pyfloat \<Rightarrow> int \<Rightarrow> data_iterator \<Rightarrow> replay_client \<Rightarrow> ('p, 'o) store
     \<Rightarrow> addr \<times> ('p, 'o) store" where
  "DQNLearner network' obs_spec rng optimizer discount' importance_sampling_exponent'
       target_update_period' iterator replay_client' s =
     new_object (LearnerObj \<lparr> l_network = network', l_obs_spec = obs_spec, l_rng = rng,
                              l_optimizer = optimizer, l_discount = discount',
                              l_importance_sampling_exponent = importance_sampling_exponent',
                              l_target_update_period = target_update_period',
                              l_iterator = iterator, l_replay_client = replay_client' \<rparr>) s"

text \<open>Modelled from the spec: \<^verbatim>\<open>acme.agents.jax.actors.FeedForwardActor\<close> is not part of
  this module. The spec says the actor consumes the policy, pulls parameters from the
  learner through a variable client and pushes transitions through the replay adder; the
  model creates an actor object that holds the constructor's arguments.\<close>

definition FeedForwardActor ::
  "('p, 'o) policy_closure \<Rightarrow> prng_sequence \<Rightarrow> variable_client \<Rightarrow> adder \<Rightarrow> ('p, 'o) store
     \<Rightarrow> addr \<times> ('p, 'o) store" where
  "FeedForwardActor policy' rng variable_client' adder' s =
     new_object (ActorObj \<lparr> a_policy = policy', a_rng = rng,
                            a_variable_client = variable_client', a_adder = adder' \<rparr>) s"

text \<open>Modelled from the spec: the generic agent base \<^verbatim>\<open>acme.agents.agent.Agent\<close> is not
  part of this module. The spec says the agent is assembled from the actor, the learner,
  a minimum-observations threshold and an observation-to-learning-step ratio; the model
  keeps these four constructor arguments. The subclass adds the \<^verbatim>\<open>_server\<close> attribute
  (line 81).\<close>

record agent =
  agent_actor :: addr
  agent_learner :: addr
  min_observations :: int
  observations_per_step :: pyfloat

record DQN_agent = agent +
  agent_server :: addr

definition Agent_init :: "addr \<Rightarrow> addr \<Rightarrow> int \<Rightarrow> pyfloat \<Rightarrow> agent" where
  "Agent_init actor' learner' min_observations' observations_per_step' =
     \<lparr> agent_actor = actor', agent_learner = learner',
       min_observations = min_observations',
       observations_per_step = observations_per_step' \<rparr>"

section \<open>The action-selection policy\<close>

text \<open>A JAX random key is a pair of 32-bit words.\<close>

type_synonym prng_key = "32 word \<times> 32 word"

text \<open>Modelled from the spec: the random draws of the sampler, which is library code
  outside this module. The spec speaks of a probability and of a random action; the
  model reads the first word of the key as a uniform draw from \<open>[0, 1)\<close>.\<close>

definition uniform_draw :: "prng_key \<Rightarrow> pyfloat" where
  "uniform_draw key = Finite (of_nat (unat (fst key)) / 2 ^ 32)"

text \<open>Modelled from the spec: the random choice among \<open>n\<close> candidates of the sampler,
  which is library code outside this module; the model reads it off the second word of
  the key.\<close>

definition index_draw :: "prng_key \<Rightarrow> nat \<Rightarrow> nat" where
  "index_draw key n = unat (snd key) mod n"

text \<open>Modelled from the spec: the best-known actions of the sampler, which is library
  code outside this module, are the indices whose preference no other preference
  exceeds.\<close>

definition greedy_actions :: "pyfloat list \<Rightarrow> nat list" where
  "greedy_actions preferences =
     filter (\<lambda>i. list_all (\<lambda>v. float_le v (preferences ! i)) preferences)
       [0..<length preferences]"

text \<open>Modelled from the spec: \<^verbatim>\<open>rlax.epsilon_greedy(epsilon).sample(key, preferences)\<close>
  is library code outside this module. The spec says an epsilon-greedy policy picks the
  best-known action with probability \<open>1 - epsilon\<close> and a random action otherwise. In the
  model the random branch is taken when the uniform draw is below \<open>epsilon\<close>, and ties
  among the best-known actions are broken by the index draw. Empty preferences, and
  preferences that hold a NaN and so have no best action, are reported as
  \<^verbatim>\<open>ValueError\<close>.\<close>

definition epsilon_greedy_sample :: "pyfloat \<Rightarrow> prng_key \<Rightarrow> pyfloat list \<Rightarrow> py_error + nat" where
  "epsilon_greedy_sample eps key preferences =
     (if preferences = [] then Inl ValueError
      else if float_lt (uniform_draw key) eps
        then Inr (index_draw key (length preferences))
      else (case greedy_actions preferences of
              [] \<Rightarrow> Inl ValueError
            | i # best \<Rightarrow> Inr ((i # best) ! index_draw key (length (i # best)))))"

text \<open>The closure \<^verbatim>\<open>policy(params, key, observation)\<close> of lines 101-104, called in a
  store \<open>s\<close>: it applies the captured network and reads \<^verbatim>\<open>config.epsilon\<close> through the
  captured reference at the time of the call.\<close>

definition policy ::
  "('p, 'o) policy_closure \<Rightarrow> ('p, 'o) store \<Rightarrow> 'p \<Rightarrow> prng_key \<Rightarrow> 'o \<Rightarrow> py_error + nat" where
  "policy closure s params key observation =
     (let action_values = net_apply (pc_network closure) params observation
      in case get_config s (pc_config closure) of
           Inl e \<Rightarrow> Inl e
         | Inr cfg \<Rightarrow> epsilon_greedy_sample (epsilon cfg) key action_values)"

section \<open>The constructors\<close>

text \<open>
  \<^verbatim>\<open>DQNFromConfig.__init__(self, environment_spec, network, config)\<close>, lines 64-116.
  \<open>config\<close> is a reference to a configuration object in the store; its fields are only
  read. The replay, the learner and the actor are created in this order, then the
  arguments of the base constructor are evaluated: the division of line 115 is the last
  step that can raise in this module.
\<close>

definition DQNFromConfig ::
  "environment_spec \<Rightarrow> ('p, 'o) network \<Rightarrow> addr \<Rightarrow> ('p, 'o) store
     \<Rightarrow> py_error + (DQN_agent \<times> ('p, 'o) store)" where
  "DQNFromConfig environment_spec' network' config s =
     (case get_config s config of
        Inl e \<Rightarrow> Inl e
      | Inr cfg \<Rightarrow>
          let (reverb_replay, s1) =
                make_reverb_prioritized_nstep_replay environment_spec' (n_step cfg)
                  (batch_size cfg) (max_replay_size cfg) (min_replay_size cfg)
                  (priority_exponent cfg) (discount cfg) s;
              self_server = server reverb_replay;
              optimizer = optax_chain [optax_clip_by_global_norm (max_gradient_norm cfg),
                                       optax_adam (learning_rate cfg)];
              (learner', s2) =
                DQNLearner network' (observations environment_spec')
                  (PRNGSequence (seed cfg)) optimizer (discount cfg)
                  (importance_sampling_exponent cfg) (target_update_period cfg)
                  (data_iterator reverb_replay) (client reverb_replay) s1;
              policy' = \<lparr> pc_network = network', pc_config = config \<rparr>;
              (actor', s3) =
                FeedForwardActor policy' (PRNGSequence (seed cfg))
                  (VariableClient learner' []) (adder reverb_replay) s2
          in (case py_truediv (batch_size cfg) (samples_per_insert cfg) of
                Inl e \<Rightarrow> Inl e
              | Inr ratio \<Rightarrow>
                  let base = Agent_init actor' learner'
                               (max (batch_size cfg) (min_replay_size cfg)) ratio;
                      self = agent.extend base (DQN_agent.fields self_server)
                  in Inr (self, s3)))"

text \<open>
  The legacy constructor \<^verbatim>\<open>DQN.__init__\<close>, lines 126-163: thirteen keyword parameters
  with defaults, packed into a new \<^verbatim>\<open>DQNConfig\<close> that is handed to
  \<^verbatim>\<open>DQNFromConfig.__init__\<close>.
\<close>

record DQN_params =
  p_batch_size :: int
  p_prefetch_size :: int
  p_target_update_period :: int
  p_samples_per_insert :: pyfloat
  p_min_replay_size :: int
  p_max_replay_size :: int
  p_importance_sampling_exponent :: pyfloat
  p_priority_exponent :: pyfloat
  p_n_step :: int
  p_epsilon :: pyfloat
  p_learning_rate :: pyfloat
  p_discount :: pyfloat
  p_seed :: int

definition DQN_keywords :: "string list" where
  "DQN_keywords =
     [''batch_size'', ''prefetch_size'', ''target_update_period'', ''samples_per_insert'',
      ''min_replay_size'', ''max_replay_size'', ''importance_sampling_exponent'',
      ''priority_exponent'', ''n_step'', ''epsilon'', ''learning_rate'', ''discount'',
      ''seed'']"

definition DQN_defaults :: DQN_params where
  "DQN_defaults =
     \<lparr> p_batch_size = 256,
       p_prefetch_size = 4,
       p_target_update_period = 100,
       p_samples_per_insert = float_lit (5 / 10),
       p_min_replay_size = 1000,
       p_max_replay_size = 1000000,
       p_importance_sampling_exponent = float_lit (2 / 10),
       p_priority_exponent = float_lit (6 / 10),
       p_n_step = 5,
       p_epsilon = float_lit (5 / 100),
       p_learning_rate = float_lit (1 / 1000),
       p_discount = float_lit (99 / 100),
       p_seed = 1 \<rparr>"

text \<open>Binding a keyword to the parameter of its name. The constructor has no parameter
  \<^verbatim>\<open>max_gradient_norm\<close>: that keyword is rejected before any binding takes place.\<close>

fun bind_param :: "kwarg \<Rightarrow> DQN_params \<Rightarrow> DQN_params" where
  "bind_param (Kw_batch_size v) p = p\<lparr>p_batch_size := v\<rparr>"
| "bind_param (Kw_prefetch_size v) p = p\<lparr>p_prefetch_size := v\<rparr>"
| "bind_param (Kw_target_update_period v) p = p\<lparr>p_target_update_period := v\<rparr>"
| "bind_param (Kw_samples_per_insert v) p = p\<lparr>p_samples_per_insert := v\<rparr>"
| "bind_param (Kw_min_replay_size v) p = p\<lparr>p_min_replay_size := v\<rparr>"
| "bind_param (Kw_max_replay_size v) p = p\<lparr>p_max_replay_size := v\<rparr>"
| "bind_param (Kw_importance_sampling_exponent v) p = p\<lparr>p_importance_sampling_exponent := v\<rparr>"
| "bind_param (Kw_priority_exponent v) p = p\<lparr>p_priority_exponent := v\<rparr>"
| "bind_param (Kw_n_step v) p = p\<lparr>p_n_step := v\<rparr>"
| "bind_param (Kw_epsilon v) p = p\<lparr>p_epsilon := v\<rparr>"
| "bind_param (Kw_learning_rate v) p = p\<lparr>p_learning_rate := v\<rparr>"
| "bind_param (Kw_discount v) p = p\<lparr>p_discount := v\<rparr>"
| "bind_param (Kw_seed v) p = p\<lparr>p_seed := v\<rparr>"
| "bind_param (Kw_max_gradient_norm v) p = p"

text \<open>Lines 126-158: the parameters are bound, then \<^verbatim>\<open>DQNConfig(...)\<close> is called with
  the thirteen keywords of lines 145-157.\<close>

definition DQN_config :: "kwarg list \<Rightarrow> py_error + DQNConfig" where
  "DQN_config kwargs =
     (if \<not> keywords_ok DQN_keywords kwargs then Inl TypeError
      else let p = fold bind_param kwargs DQN_defaults
           in DQNConfig_init
                [Kw_batch_size (p_batch_size p),
                 Kw_prefetch_size (p_prefetch_size p),
                 Kw_target_update_period (p_target_update_period p),
                 Kw_samples_per_insert (p_samples_per_insert p),
                 Kw_min_replay_size (p_min_replay_size p),
                 Kw_max_replay_size (p_max_replay_size p),
                 Kw_importance_sampling_exponent (p_importance_sampling_exponent p),
                 Kw_priority_exponent (p_priority_exponent p),
                 Kw_n_step (p_n_step p),
                 Kw_epsilon (p_epsilon p),
                 Kw_learning_rate (p_learning_rate p),
                 Kw_discount (p_discount p),
                 Kw_seed (p_seed p)])"

text \<open>Lines 159-163: the new configuration object is passed on to the primary
  constructor.\<close>

definition DQN ::
  "environment_spec \<Rightarrow> ('p, 'o) network \<Rightarrow> kwarg list \<Rightarrow> ('p, 'o) store
     \<Rightarrow> py_error + (DQN_agent \<times> ('p, 'o) store)" where
  "DQN environment_spec' network' kwargs s =
     (case DQN_config kwargs of
        Inl e \<Rightarrow> Inl e
      | Inr cfg \<Rightarrow>
          let (config, s0) = new_object (ConfigObj cfg) s
          in DQNFromConfig environment_spec' network' config s0)"

section \<open>Example inputs\<close>

text \<open>A CartPole-like environment and a two-action network over integer observations,
  used where a property is evaluated on a concrete construction.\<close>

definition example_spec :: environment_spec where
  "example_spec =
     \<lparr> observations = Array [4] ''float32'', actions = Array [] ''int32'',
       rewards = Array [] ''float32'', discounts = Array [] ''float32'' \<rparr>"

definition example_network :: "(int, int) network" where
  "example_network = \<lparr> net_apply = (\<lambda>params observation.
       [Finite (of_int params), Finite (of_int observation)]) \<rparr>"

definition example_store :: "DQNConfig \<Rightarrow> (int, int) store" where
  "example_store cfg = [ConfigObj cfg]"

section \<open>Evaluation of the float operations on the example values\<close>

lemmas float_eval = float_lit_def to_double_def round_magnitude_def ilog2_def
  round_half_even_def signed_zero_def signed_inf_def int_to_float_def py_truediv_def
  float_truediv_def ieee_div_def bit_length.simps Let_def

lemma float_lit_half: "float_lit (1 / 2) = Finite (1 / 2)"
  by (simp add: float_eval)

lemma truediv_256_half: "py_truediv 256 (Finite (1 / 2)) = Inr (Finite 512)"
  by (simp add: float_eval)

lemma truediv_32_half: "py_truediv 32 (Finite (1 / 2)) = Inr (Finite 64)"
  by (simp add: float_eval)

lemma truediv_zero_raises:
  "is_zero b \<Longrightarrow> int_to_float n = Inr a \<Longrightarrow> py_truediv n b = Inl ZeroDivisionError"
  by (simp add: py_truediv_def float_truediv_def)

section \<open>The store\<close>

lemma lookup_append_old: "a < length s \<Longrightarrow> lookup (s @ xs) a = lookup s a"
  by (simp add: lookup_def nth_append)

lemma lookup_append_new:
  "lookup (s @ xs) (length s + i) = (if i < length xs then Some (xs ! i) else None)"
  by (simp add: lookup_def nth_append)

lemma lookup_fresh: "lookup s (length s) = None"
  by (simp add: lookup_def)

lemma get_config_lookup: "get_config s c = Inr cfg \<longleftrightarrow> lookup s c = Some (ConfigObj cfg)"
  by (auto simp: get_config_def split: option.splits obj.splits)

lemma get_config_bound: "get_config s c = Inr cfg \<Longrightarrow> c < length s"
  by (auto simp: get_config_lookup lookup_def split: if_splits)

lemma get_config_example: "get_config (example_store cfg) 0 = Inr cfg"
  by (simp add: get_config_def lookup_def example_store_def)

section \<open>What the primary constructor builds\<close>

lemma DQNFromConfig_result:
  assumes "get_config s c = Inr cfg"
  shows "DQNFromConfig env net c s =
    (case py_truediv (batch_size cfg) (samples_per_insert cfg) of
       Inl e \<Rightarrow> Inl e
     | Inr ratio \<Rightarrow>
         Inr (\<lparr> agent_actor = length s + 2, agent_learner = length s + 1,
                min_observations = max (batch_size cfg) (min_replay_size cfg),
                observations_per_step = ratio, agent_server = length s \<rparr>,
              s @ [ServerObj \<lparr> rs_environment_spec = env,
                     rs_max_replay_size = max_replay_size cfg,
                     rs_min_replay_size = min_replay_size cfg,
                     rs_priority_exponent = priority_exponent cfg \<rparr>,
                   LearnerObj \<lparr> l_network = net, l_obs_spec = observations env,
                     l_rng = PRNGSequence (seed cfg),
                     l_optimizer = optax_chain [optax_clip_by_global_norm (max_gradient_norm cfg),
                                       optax_adam (learning_rate cfg)],
                     l_discount = discount cfg,
                     l_importance_sampling_exponent = importance_sampling_exponent cfg,
                     l_target_update_period = target_update_period cfg,
                     l_iterator = DataIterator (length s) (batch_size cfg),
                     l_replay_client = Client (length s) \<rparr>,
                   ActorObj \<lparr> a_policy = \<lparr> pc_network = net, pc_config = c \<rparr>,
                     a_rng = PRNGSequence (seed cfg),
                     a_variable_client = VariableClient (length s + 1) [],
                     a_adder = NStepTransitionAdder (Client (length s)) (n_step cfg) (discount cfg) \<rparr>]))"
  using assms
  by (simp add: DQNFromConfig_def make_reverb_prioritized_nstep_replay_def DQNLearner_def
      FeedForwardActor_def new_object_def Agent_init_def agent.extend_def DQN_agent.fields_def
      split: sum.splits)

lemma DQNFromConfig_raises:
  assumes "get_config s c = Inr cfg"
    and "py_truediv (batch_size cfg) (samples_per_insert cfg) = Inl e"
  shows "DQNFromConfig env net c s = Inl e"
  using assms by (simp add: DQNFromConfig_result)

section \<open>Scheduling parameters of the assembled agent\<close>

text \<open>
  Claim C1. For every configuration on which the construction completes, the agent built
  by \<^verbatim>\<open>DQNFromConfig\<close> has \<open>min_observations = max(batch_size, min_replay_size)\<close>. The
  construction completes exactly when the division of line 115 does. With
  \<open>batch_size = 32\<close> and \<open>min_replay_size = 1000\<close> the value is 1000 (the witness).
\<close>

theorem min_observations_is_max:
  assumes "get_config s c = Inr cfg"
    and "py_truediv (batch_size cfg) (samples_per_insert cfg) = Inr ratio"
  shows "\<exists>ag s'. DQNFromConfig env net c s = Inr (ag, s') \<and>
           min_observations ag = max (batch_size cfg) (min_replay_size cfg)"
  using assms by (simp add: DQNFromConfig_result)

theorem min_observations_is_max_witness:
  "get_config (example_store (DQNConfig_defaults\<lparr>batch_size := 32\<rparr>)) 0
     = Inr (DQNConfig_defaults\<lparr>batch_size := 32\<rparr>) \<and>
   py_truediv 32 (float_lit (5 / 10)) = Inr (Finite 64) \<and>
   (\<exists>ag s'. DQNFromConfig example_spec example_network 0
               (example_store (DQNConfig_defaults\<lparr>batch_size := 32\<rparr>)) = Inr (ag, s') \<and>
             min_observations ag = 1000)"
proof -
  let ?cfg = "DQNConfig_defaults\<lparr>batch_size := 32\<rparr>"
  have cfg: "get_config (example_store ?cfg) 0 = Inr ?cfg"
    by (rule get_config_example)
  have div: "py_truediv (batch_size ?cfg) (samples_per_insert ?cfg) = Inr (Finite 64)"
    by (simp add: DQNConfig_defaults_def float_lit_half truediv_32_half)
  from min_observations_is_max [OF cfg div, of example_spec example_network]
  show ?thesis
    using cfg div by (simp add: DQNConfig_defaults_def)
qed

text \<open>
  Claim C2. For every configuration on which the construction completes, the agent built
  by \<^verbatim>\<open>DQNFromConfig\<close> has \<open>observations_per_step\<close> equal to the Python quotient
  \<open>batch_size / samples_per_insert\<close>. With \<open>batch_size = 256\<close> and
  \<open>samples_per_insert = 0.5\<close> the value is \<open>512.0\<close> (the witness).
\<close>

theorem observations_per_step_is_ratio:
  assumes "get_config s c = Inr cfg"
    and "py_truediv (batch_size cfg) (samples_per_insert cfg) = Inr ratio"
  shows "\<exists>ag s'. DQNFromConfig env net c s = Inr (ag, s') \<and>
           observations_per_step ag = ratio"
  using assms by (simp add: DQNFromConfig_result)

theorem observations_per_step_is_ratio_witness:
  "get_config (example_store DQNConfig_defaults) 0 = Inr DQNConfig_defaults \<and>
   py_truediv 256 (float_lit (5 / 10)) = Inr (Finite 512) \<and>
   (\<exists>ag s'. DQNFromConfig example_spec example_network 0
               (example_store DQNConfig_defaults) = Inr (ag, s') \<and>
             observations_per_step ag = Finite 512)"
proof -
  have cfg: "get_config (example_store DQNConfig_defaults) 0 = Inr DQNConfig_defaults"
    by (rule get_config_example)
  have div: "py_truediv (batch_size DQNConfig_defaults) (samples_per_insert DQNConfig_defaults)
               = Inr (Finite 512)"
    by (simp add: DQNConfig_defaults_def float_lit_half truediv_256_half)
  from observations_per_step_is_ratio [OF cfg div, of example_spec example_network]
  show ?thesis
    using cfg div by (simp add: DQNConfig_defaults_def)
qed

section \<open>Keyword binding of the two constructors\<close>

lemma kw_name_DQNConfig_field: "kw_name kw \<in> set DQNConfig_fields"
  by (cases kw) (simp_all add: DQNConfig_fields_def)

lemma kw_name_DQN_keyword:
  "kw_name kw \<in> set DQN_keywords \<longleftrightarrow> kw_name kw \<noteq> ''max_gradient_norm''"
  by (cases kw) (simp_all add: DQN_keywords_def)

lemma keywords_ok_DQN:
  "keywords_ok DQN_keywords kwargs \<longleftrightarrow>
     keywords_ok DQNConfig_fields kwargs \<and>
     list_all (\<lambda>kw. kw_name kw \<noteq> ''max_gradient_norm'') kwargs"
  by (auto simp: keywords_ok_def list_all_iff kw_name_DQN_keyword kw_name_DQNConfig_field)

lemma fold_setattr_max_gradient_norm:
  "list_all (\<lambda>kw. kw_name kw \<noteq> ''max_gradient_norm'') kwargs \<Longrightarrow>
     max_gradient_norm (fold setattr kwargs cfg) = max_gradient_norm cfg"
proof (induction kwargs arbitrary: cfg)
  case Nil
  then show ?case by simp
next
  case (Cons kw kwargs)
  then have "max_gradient_norm (setattr kw cfg) = max_gradient_norm cfg"
    by (cases kw) simp_all
  with Cons show ?case by simp
qed

lemma DQN_config_accepts:
  assumes ok: "keywords_ok DQN_keywords kwargs"
  shows "DQN_config kwargs = DQNConfig_init kwargs"
proof -
  define pack :: "DQN_params \<Rightarrow> DQNConfig" where
    "pack p = \<lparr> epsilon = p_epsilon p,
       samples_per_insert = p_samples_per_insert p,
       seed = p_seed p,
       learning_rate = p_learning_rate p,
       discount = p_discount p,
       n_step = p_n_step p,
       target_update_period = p_target_update_period p,
       max_gradient_norm = PosInf,
       batch_size = p_batch_size p,
       min_replay_size = p_min_replay_size p,
       max_replay_size = p_max_replay_size p,
       importance_sampling_exponent = p_importance_sampling_exponent p,
       priority_exponent = p_priority_exponent p,
       prefetch_size = p_prefetch_size p \<rparr>" for p
  have init: "DQNConfig_init
                [Kw_batch_size (p_batch_size p),
                 Kw_prefetch_size (p_prefetch_size p),
                 Kw_target_update_period (p_target_update_period p),
                 Kw_samples_per_insert (p_samples_per_insert p),
                 Kw_min_replay_size (p_min_replay_size p),
                 Kw_max_replay_size (p_max_replay_size p),
                 Kw_importance_sampling_exponent (p_importance_sampling_exponent p),
                 Kw_priority_exponent (p_priority_exponent p),
                 Kw_n_step (p_n_step p),
                 Kw_epsilon (p_epsilon p),
                 Kw_learning_rate (p_learning_rate p),
                 Kw_discount (p_discount p),
                 Kw_seed (p_seed p)] = Inr (pack p)" for p
    by (simp add: DQNConfig_init_def keywords_ok_def DQNConfig_fields_def
        DQNConfig_defaults_def pack_def)
  have step: "pack (bind_param kw p) = setattr kw (pack p)"
    if "kw_name kw \<noteq> ''max_gradient_norm''" for kw p
    using that by (cases kw) (simp_all add: pack_def)
  have folded: "pack (fold bind_param kws p) = fold setattr kws (pack p)"
    if "list_all (\<lambda>kw. kw_name kw \<noteq> ''max_gradient_norm'') kws" for kws p
    using that by (induction kws arbitrary: p) (simp_all add: step)
  have defaults: "pack DQN_defaults = DQNConfig_defaults"
    by (simp add: pack_def DQN_defaults_def DQNConfig_defaults_def)
  from ok have fields: "keywords_ok DQNConfig_fields kwargs"
    and legacy: "list_all (\<lambda>kw. kw_name kw \<noteq> ''max_gradient_norm'') kwargs"
    by (simp_all add: keywords_ok_DQN)
  have "DQN_config kwargs = Inr (pack (fold bind_param kwargs DQN_defaults))"
    using ok by (simp add: DQN_config_def init)
  also have "\<dots> = Inr (fold setattr kwargs DQNConfig_defaults)"
    by (simp add: folded [OF legacy] defaults)
  also have "\<dots> = DQNConfig_init kwargs"
    using fields by (simp add: DQNConfig_init_def)
  finally show ?thesis .
qed

lemma DQN_config_rejects:
  "\<not> keywords_ok DQN_keywords kwargs \<Longrightarrow> DQN_config kwargs = Inl TypeError"
  by (simp add: DQN_config_def)

section \<open>The legacy constructor\<close>

text \<open>
  Claim C3. For every set of keyword arguments that the legacy constructor \<^verbatim>\<open>DQN\<close>
  accepts, constructing with \<^verbatim>\<open>DQN\<close> is the same as building the record
  \<^verbatim>\<open>DQNConfig(**kwargs)\<close> and handing it to \<^verbatim>\<open>DQNFromConfig\<close>: the same agent, the same
  store, the same exception if one is raised. The legacy constructor adds no behaviour
  of its own.
\<close>

theorem legacy_constructor_delegates:
  assumes "keywords_ok DQN_keywords kwargs"
  shows "DQNConfig_init kwargs = Inr (fold setattr kwargs DQNConfig_defaults) \<and>
         DQN env net kwargs s =
           (case DQNConfig_init kwargs of
              Inl e \<Rightarrow> Inl e
            | Inr cfg \<Rightarrow>
                let (config, s0) = new_object (ConfigObj cfg) s
                in DQNFromConfig env net config s0)"
  using assms
  by (simp add: DQN_def DQN_config_accepts DQNConfig_init_def keywords_ok_DQN)

theorem legacy_constructor_delegates_witness:
  "keywords_ok DQN_keywords [Kw_batch_size 32, Kw_seed 7] \<and>
   DQNConfig_init [Kw_batch_size 32, Kw_seed 7]
     = Inr (DQNConfig_defaults\<lparr>batch_size := 32, seed := 7\<rparr>) \<and>
   DQN example_spec example_network [Kw_batch_size 32, Kw_seed 7] []
     = DQNFromConfig example_spec example_network 0
         [ConfigObj (DQNConfig_defaults\<lparr>batch_size := 32, seed := 7\<rparr>)]"
proof -
  have ok: "keywords_ok DQN_keywords [Kw_batch_size 32, Kw_seed 7]"
    by (simp add: keywords_ok_def DQN_keywords_def)
  from legacy_constructor_delegates [OF ok, of example_spec example_network "[]"]
  show ?thesis
    using ok by (simp add: new_object_def)
qed

text \<open>
  Claim C8, as stated, fails: \<^verbatim>\<open>max_gradient_norm\<close> is a field of \<^verbatim>\<open>DQNConfig\<close> that
  \<^verbatim>\<open>DQNConfig(...)\<close> accepts, and the legacy constructor has no such parameter, so the
  call raises \<^verbatim>\<open>TypeError\<close>.
\<close>

theorem legacy_rejects_max_gradient_norm:
  "DQNConfig_init [Kw_max_gradient_norm (Finite 1)]
     = Inr (DQNConfig_defaults\<lparr>max_gradient_norm := Finite 1\<rparr>) \<and>
   DQN example_spec example_network [Kw_max_gradient_norm (Finite 1)] [] = Inl TypeError"
  by (simp add: DQNConfig_init_def DQN_def DQN_config_def keywords_ok_def
      DQNConfig_fields_def DQN_keywords_def)

text \<open>
  Claim C8, amended. The legacy constructor accepts as keyword arguments thirteen of the
  fourteen hyperparameters of \<^verbatim>\<open>DQNConfig\<close>, every one except \<^verbatim>\<open>max_gradient_norm\<close>,
  with the same defaults: on such keywords the record it builds is the one
  \<^verbatim>\<open>DQNConfig(**kwargs)\<close> builds, and any other call raises \<^verbatim>\<open>TypeError\<close>. The record it
  builds always has \<^verbatim>\<open>max_gradient_norm\<close> at its default, infinity.
\<close>

theorem legacy_keywords:
  "DQN_config kwargs =
     (if list_all (\<lambda>kw. kw_name kw \<noteq> ''max_gradient_norm'') kwargs
      then DQNConfig_init kwargs else Inl TypeError) \<and>
   (\<forall>cfg. DQN_config kwargs = Inr cfg \<longrightarrow> max_gradient_norm cfg = PosInf)"
proof (cases "keywords_ok DQN_keywords kwargs")
  case True
  then have "max_gradient_norm (fold setattr kwargs DQNConfig_defaults) = PosInf"
    by (simp add: keywords_ok_DQN fold_setattr_max_gradient_norm DQNConfig_defaults_def)
  with True show ?thesis
    by (auto simp: DQN_config_accepts keywords_ok_DQN DQNConfig_init_def)
next
  case False
  then show ?thesis
    by (auto simp: DQN_config_rejects keywords_ok_DQN DQNConfig_init_def)
qed

theorem legacy_keywords_witness:
  "list_all (\<lambda>kw. kw_name kw \<noteq> ''max_gradient_norm'') [Kw_epsilon (Finite 0), Kw_prefetch_size 8] \<and>
   DQN_config [Kw_epsilon (Finite 0), Kw_prefetch_size 8]
     = Inr (DQNConfig_defaults\<lparr>epsilon := Finite 0, prefetch_size := 8\<rparr>) \<and>
   max_gradient_norm (DQNConfig_defaults\<lparr>epsilon := Finite 0, prefetch_size := 8\<rparr>) = PosInf"
  using legacy_keywords [of "[Kw_epsilon (Finite 0), Kw_prefetch_size 8]"]
  by (simp add: DQNConfig_init_def keywords_ok_def DQNConfig_fields_def)

section \<open>The objects one construction creates\<close>

lemma DQNFromConfig_objects:
  assumes cfg: "get_config s c = Inr cfg"
    and div: "py_truediv (batch_size cfg) (samples_per_insert cfg) = Inr ratio"
  obtains ag s' srv l a where
    "DQNFromConfig env net c s = Inr (ag, s')"
    "s' = s @ [ServerObj srv, LearnerObj l, ActorObj a]"
    "agent_server ag = length s" "agent_learner ag = Suc (length s)"
    "agent_actor ag = Suc (Suc (length s))"
    "l_iterator l = DataIterator (length s) (batch_size cfg)"
    "l_replay_client l = Client (length s)"
    "a_adder a = NStepTransitionAdder (Client (length s)) (n_step cfg) (discount cfg)"
    "a_variable_client a = VariableClient (Suc (length s)) []"
    "a_policy a = \<lparr> pc_network = net, pc_config = c \<rparr>"
    "l_rng l = PRNGSequence (seed cfg)" "a_rng a = PRNGSequence (seed cfg)"
    "l_optimizer l = optax_chain [optax_clip_by_global_norm (max_gradient_norm cfg),
                                  optax_adam (learning_rate cfg)]"
proof -
  have "\<exists>ag s' srv l a.
    DQNFromConfig env net c s = Inr (ag, s') \<and>
    s' = s @ [ServerObj srv, LearnerObj l, ActorObj a] \<and>
    agent_server ag = length s \<and> agent_learner ag = Suc (length s) \<and>
    agent_actor ag = Suc (Suc (length s)) \<and>
    l_iterator l = DataIterator (length s) (batch_size cfg) \<and>
    l_replay_client l = Client (length s) \<and>
    a_adder a = NStepTransitionAdder (Client (length s)) (n_step cfg) (discount cfg) \<and>
    a_variable_client a = VariableClient (Suc (length s)) [] \<and>
    a_policy a = \<lparr> pc_network = net, pc_config = c \<rparr> \<and>
    l_rng l = PRNGSequence (seed cfg) \<and> a_rng a = PRNGSequence (seed cfg) \<and>
    l_optimizer l = optax_chain [optax_clip_by_global_norm (max_gradient_norm cfg),
                                  optax_adam (learning_rate cfg)]"
    using DQNFromConfig_result [OF cfg, of env net] div by simp
  then show thesis
    using that by (elim exE conjE)
qed

lemma lookup_created:
  "lookup (s @ [x, y, z]) (length s) = Some x"
  "lookup (s @ [x, y, z]) (Suc (length s)) = Some y"
  "lookup (s @ [x, y, z]) (Suc (Suc (length s))) = Some z"
  by (simp_all add: lookup_def nth_append)

text \<open>
  Claim C4. For every configuration on which the construction completes, the
  construction creates exactly one replay server, one learner and one actor, all live in
  the resulting store. The learner's data iterator, the learner's replay client and the
  actor's adder are handles onto that one server, which the agent keeps as its
  \<^verbatim>\<open>_server\<close>. The actor reaches the learner through its variable client only: the
  other reference it holds, the configuration captured by its policy, is not the
  learner.
\<close>

theorem one_replay_shared:
  assumes "get_config s c = Inr cfg"
    and "py_truediv (batch_size cfg) (samples_per_insert cfg) = Inr ratio"
  shows "\<exists>ag s' srv l a.
           DQNFromConfig env net c s = Inr (ag, s') \<and>
           s' = s @ [ServerObj srv, LearnerObj l, ActorObj a] \<and>
           lookup s' (agent_server ag) = Some (ServerObj srv) \<and>
           lookup s' (agent_learner ag) = Some (LearnerObj l) \<and>
           lookup s' (agent_actor ag) = Some (ActorObj a) \<and>
           iterator_server (l_iterator l) = agent_server ag \<and>
           client_server (l_replay_client l) = agent_server ag \<and>
           adder_server (a_adder a) = agent_server ag \<and>
           variable_source (a_variable_client a) = agent_learner ag \<and>
           pc_config (a_policy a) \<noteq> agent_learner ag"
proof -
  from assms obtain ag s' srv l a where built:
    "DQNFromConfig env net c s = Inr (ag, s')"
    "s' = s @ [ServerObj srv, LearnerObj l, ActorObj a]"
    "agent_server ag = length s" "agent_learner ag = Suc (length s)"
    "agent_actor ag = Suc (Suc (length s))"
    "l_iterator l = DataIterator (length s) (batch_size cfg)"
    "l_replay_client l = Client (length s)"
    "a_adder a = NStepTransitionAdder (Client (length s)) (n_step cfg) (discount cfg)"
    "a_variable_client a = VariableClient (Suc (length s)) []"
    "a_policy a = \<lparr> pc_network = net, pc_config = c \<rparr>"
    by (rule DQNFromConfig_objects)
  from assms(1) have "c < length s"
    by (rule get_config_bound)
  with built show ?thesis
    by (simp add: lookup_created)
qed

theorem one_replay_shared_witness:
  "\<exists>ag s' srv l a.
     DQNFromConfig example_spec example_network 0 (example_store DQNConfig_defaults)
       = Inr (ag, s') \<and>
     s' = example_store DQNConfig_defaults @ [ServerObj srv, LearnerObj l, ActorObj a] \<and>
     lookup s' (agent_server ag) = Some (ServerObj srv) \<and>
     lookup s' (agent_learner ag) = Some (LearnerObj l) \<and>
     lookup s' (agent_actor ag) = Some (ActorObj a) \<and>
     iterator_server (l_iterator l) = agent_server ag \<and>
     client_server (l_replay_client l) = agent_server ag \<and>
     adder_server (a_adder a) = agent_server ag \<and>
     variable_source (a_variable_client a) = agent_learner ag \<and>
     pc_config (a_policy a) \<noteq> agent_learner ag"
proof -
  have cfg: "get_config (example_store DQNConfig_defaults) 0 = Inr DQNConfig_defaults"
    by (rule get_config_example)
  have div: "py_truediv (batch_size DQNConfig_defaults) (samples_per_insert DQNConfig_defaults)
               = Inr (Finite 512)"
    by (simp add: DQNConfig_defaults_def float_lit_half truediv_256_half)
  show ?thesis
    by (rule one_replay_shared [OF cfg div])
qed

text \<open>
  Claim C6. The optimizer handed to the learner is the chain of two stages, gradient
  clipping at \<open>max_gradient_norm\<close> followed by Adam at \<open>learning_rate\<close>; applied to
  updates \<open>g\<close> it clips first and then applies Adam, whatever the two stages compute.
\<close>

theorem optimizer_clips_then_adam:
  assumes "get_config s c = Inr cfg"
    and "py_truediv (batch_size cfg) (samples_per_insert cfg) = Inr ratio"
  shows "\<exists>ag s' l.
           DQNFromConfig env net c s = Inr (ag, s') \<and>
           lookup s' (agent_learner ag) = Some (LearnerObj l) \<and>
           l_optimizer l = optax_chain [optax_clip_by_global_norm (max_gradient_norm cfg),
                                        optax_adam (learning_rate cfg)] \<and>
           (\<forall>clip adam g. apply_updates clip adam (l_optimizer l) g
                            = adam (learning_rate cfg) (clip (max_gradient_norm cfg) g))"
proof -
  from assms obtain ag s' srv l a where built:
    "DQNFromConfig env net c s = Inr (ag, s')"
    "s' = s @ [ServerObj srv, LearnerObj l, ActorObj a]"
    "agent_learner ag = Suc (length s)"
    "l_optimizer l = optax_chain [optax_clip_by_global_norm (max_gradient_norm cfg),
                                  optax_adam (learning_rate cfg)]"
    by (rule DQNFromConfig_objects)
  then show ?thesis
    by (simp add: lookup_created)
qed

theorem optimizer_clips_then_adam_witness:
  "\<exists>ag s' l.
     DQNFromConfig example_spec example_network 0 (example_store DQNConfig_defaults)
       = Inr (ag, s') \<and>
     lookup s' (agent_learner ag) = Some (LearnerObj l) \<and>
     l_optimizer l = optax_chain [optax_clip_by_global_norm PosInf,
                                  optax_adam (float_lit (1 / 1000))] \<and>
     apply_updates (\<lambda>m g. ''clip'' # g) (\<lambda>lr g. ''adam'' # g) (l_optimizer l) []
       = [''adam'', ''clip'']"
proof -
  have cfg: "get_config (example_store DQNConfig_defaults) 0 = Inr DQNConfig_defaults"
    by (rule get_config_example)
  have div: "py_truediv (batch_size DQNConfig_defaults) (samples_per_insert DQNConfig_defaults)
               = Inr (Finite 512)"
    by (simp add: DQNConfig_defaults_def float_lit_half truediv_256_half)
  from optimizer_clips_then_adam [OF cfg div, of example_spec example_network]
  obtain ag s' l where
    "DQNFromConfig example_spec example_network 0 (example_store DQNConfig_defaults)
       = Inr (ag, s')"
    "lookup s' (agent_learner ag) = Some (LearnerObj l)"
    "l_optimizer l = optax_chain [optax_clip_by_global_norm (max_gradient_norm DQNConfig_defaults),
                                  optax_adam (learning_rate DQNConfig_defaults)]"
    by blast
  then show ?thesis
    by (simp add: DQNConfig_defaults_def)
qed

text \<open>
  Claim C10. The learner's and the actor's random-number sequences are both initialised
  from \<open>config.seed\<close>, and every random-number sequence held by an object that the
  construction created is initialised from that seed.
\<close>

theorem both_rngs_from_config_seed:
  assumes "get_config s c = Inr cfg"
    and "py_truediv (batch_size cfg) (samples_per_insert cfg) = Inr ratio"
  shows "\<exists>ag s' l a.
           DQNFromConfig env net c s = Inr (ag, s') \<and>
           lookup s' (agent_learner ag) = Some (LearnerObj l) \<and>
           lookup s' (agent_actor ag) = Some (ActorObj a) \<and>
           l_rng l = PRNGSequence (seed cfg) \<and>
           a_rng a = PRNGSequence (seed cfg) \<and>
           (\<forall>x \<in> set (drop (length s) s'). \<forall>r \<in> set (obj_rngs x). r = PRNGSequence (seed cfg))"
proof -
  from assms obtain ag s' srv l a where built:
    "DQNFromConfig env net c s = Inr (ag, s')"
    "s' = s @ [ServerObj srv, LearnerObj l, ActorObj a]"
    "agent_learner ag = Suc (length s)"
    "agent_actor ag = Suc (Suc (length s))"
    "l_rng l = PRNGSequence (seed cfg)" "a_rng a = PRNGSequence (seed cfg)"
    by (rule DQNFromConfig_objects)
  then show ?thesis
    by (simp add: lookup_created)
qed

theorem both_rngs_from_config_seed_witness:
  "\<exists>ag s' l a.
     DQNFromConfig example_spec example_network 0
       (example_store (DQNConfig_defaults\<lparr>seed := 42\<rparr>)) = Inr (ag, s') \<and>
     lookup s' (agent_learner ag) = Some (LearnerObj l) \<and>
     lookup s' (agent_actor ag) = Some (ActorObj a) \<and>
     l_rng l = PRNGSequence 42 \<and> a_rng a = PRNGSequence 42 \<and>
     (\<forall>x \<in> set (drop 1 s'). \<forall>r \<in> set (obj_rngs x). r = PRNGSequence 42)"
proof -
  let ?cfg = "DQNConfig_defaults\<lparr>seed := 42\<rparr>"
  have cfg: "get_config (example_store ?cfg) 0 = Inr ?cfg"
    by (rule get_config_example)
  have div: "py_truediv (batch_size ?cfg) (samples_per_insert ?cfg) = Inr (Finite 512)"
    by (simp add: DQNConfig_defaults_def float_lit_half truediv_256_half)
  from both_rngs_from_config_seed [OF cfg div, of example_spec example_network]
  show ?thesis
    by (simp add: example_store_def)
qed

section \<open>The policy at exploration rate zero\<close>

lemma float_le_refl: "a \<noteq> NaN \<Longrightarrow> float_le a a"
  by (auto simp: float_le_def)

lemma float_le_total: "a \<noteq> NaN \<Longrightarrow> b \<noteq> NaN \<Longrightarrow> float_le a b \<or> float_le b a"
  by (auto simp: float_le_def)

lemma float_le_trans: "float_le a b \<Longrightarrow> float_le b c \<Longrightarrow> float_le a c"
  by (auto simp: float_le_def)

lemma greatest_preference:
  "vs \<noteq> [] \<Longrightarrow> NaN \<notin> set vs \<Longrightarrow> \<exists>i<length vs. \<forall>v\<in>set vs. float_le v (vs ! i)"
proof (induction vs)
  case Nil
  then show ?case by simp
next
  case (Cons x xs)
  show ?case
  proof (cases "xs = []")
    case True
    with Cons.prems show ?thesis
      by (auto simp: float_le_refl)
  next
    case False
    with Cons obtain j where j: "j < length xs" "\<forall>v\<in>set xs. float_le v (xs ! j)"
      by auto
    from j(1) have "xs ! j \<in> set xs"
      by (rule nth_mem)
    with Cons.prems have nan: "x \<noteq> NaN" "xs ! j \<noteq> NaN"
      by auto
    show ?thesis
    proof (cases "float_le (xs ! j) x")
      case True
      with j(2) nan(1) have "\<forall>v\<in>set (x # xs). float_le v ((x # xs) ! 0)"
        by (auto simp: float_le_refl intro: float_le_trans)
      then show ?thesis by blast
    next
      case False
      with nan have "float_le x (xs ! j)"
        using float_le_total by blast
      with j have "Suc j < length (x # xs)"
        and "\<forall>v\<in>set (x # xs). float_le v ((x # xs) ! Suc j)"
        by auto
      then show ?thesis by blast
    qed
  qed
qed

lemma greedy_actions_sound:
  "i \<in> set (greedy_actions vs) \<Longrightarrow> i < length vs \<and> (\<forall>v\<in>set vs. float_le v (vs ! i))"
  by (auto simp: greedy_actions_def list_all_iff)

lemma greedy_actions_nonempty:
  assumes "vs \<noteq> []" and "NaN \<notin> set vs"
  shows "greedy_actions vs \<noteq> []"
proof -
  from greatest_preference [OF assms] obtain i
    where "i < length vs" "\<forall>v\<in>set vs. float_le v (vs ! i)"
    by blast
  then have "i \<in> set (greedy_actions vs)"
    by (simp add: greedy_actions_def list_all_iff)
  then show ?thesis by auto
qed

lemma uniform_draw_nonneg: "\<exists>r. uniform_draw key = Finite r \<and> 0 \<le> r"
  unfolding uniform_draw_def
  by (intro exI conjI, rule refl) (rule divide_nonneg_nonneg, rule of_nat_0_le_iff, simp)

lemma uniform_draw_not_below_zero:
  assumes "is_zero e"
  shows "\<not> float_lt (uniform_draw key) e"
proof -
  obtain r where "uniform_draw key = Finite r" "0 \<le> r"
    using uniform_draw_nonneg by blast
  with assms show ?thesis
    by (cases e) (simp_all add: float_lt_def float_le_def)
qed

lemma epsilon_greedy_zero:
  assumes "is_zero e" and "vs \<noteq> []" and "NaN \<notin> set vs"
  shows "\<exists>act. epsilon_greedy_sample e key vs = Inr act \<and> act < length vs \<and>
               (\<forall>v\<in>set vs. float_le v (vs ! act))"
proof -
  from assms(2,3) obtain i best where best: "greedy_actions vs = i # best"
    using greedy_actions_nonempty by (cases "greedy_actions vs") auto
  let ?act = "(i # best) ! index_draw key (length (i # best))"
  have "index_draw key (length (i # best)) < length (i # best)"
    by (simp add: index_draw_def)
  then have "?act \<in> set (greedy_actions vs)"
    unfolding best by (rule nth_mem)
  then have "?act < length vs \<and> (\<forall>v\<in>set vs. float_le v (vs ! ?act))"
    by (rule greedy_actions_sound)
  moreover have "epsilon_greedy_sample e key vs = Inr ?act"
    using assms(1,2) by (simp add: epsilon_greedy_sample_def uniform_draw_not_below_zero best)
  ultimately show ?thesis by blast
qed

text \<open>
  Claim C5. Let the configuration have \<open>epsilon\<close> equal to zero. For every parameter set,
  random key and observation on which the network returns at least one action value and
  no NaN, the policy closure that \<^verbatim>\<open>DQNFromConfig\<close> hands to the actor returns an action
  whose value no other action value of the network's output exceeds: an argmax of the
  output.
\<close>

theorem greedy_when_epsilon_zero:
  assumes "get_config s c = Inr cfg"
    and "is_zero (epsilon cfg)"
    and "py_truediv (batch_size cfg) (samples_per_insert cfg) = Inr ratio"
    and "net_apply net params observation \<noteq> []"
    and "NaN \<notin> set (net_apply net params observation)"
  shows "\<exists>ag s' a act.
           DQNFromConfig env net c s = Inr (ag, s') \<and>
           lookup s' (agent_actor ag) = Some (ActorObj a) \<and>
           policy (a_policy a) s' params key observation = Inr act \<and>
           act < length (net_apply net params observation) \<and>
           (\<forall>v \<in> set (net_apply net params observation).
              float_le v (net_apply net params observation ! act))"
proof -
  from assms(1,3) obtain ag s' srv l a where built:
    "DQNFromConfig env net c s = Inr (ag, s')"
    "s' = s @ [ServerObj srv, LearnerObj l, ActorObj a]"
    "agent_actor ag = Suc (Suc (length s))"
    "a_policy a = \<lparr> pc_network = net, pc_config = c \<rparr>"
    by (rule DQNFromConfig_objects)
  from assms(1) have "c < length s"
    by (rule get_config_bound)
  with assms(1) built(2) have "get_config s' c = Inr cfg"
    by (simp add: get_config_lookup lookup_append_old)
  with built(4) have "policy (a_policy a) s' params key observation
      = epsilon_greedy_sample (epsilon cfg) key (net_apply net params observation)"
    by (simp add: policy_def)
  with epsilon_greedy_zero [OF assms(2,4,5), of key] built show ?thesis
    by (auto simp: lookup_created)
qed

theorem greedy_when_epsilon_zero_witness:
  "get_config (example_store (DQNConfig_defaults\<lparr>epsilon := Finite 0\<rparr>)) 0
     = Inr (DQNConfig_defaults\<lparr>epsilon := Finite 0\<rparr>) \<and>
   net_apply example_network 3 5 = [Finite 3, Finite 5] \<and>
   (\<exists>ag s' a.
      DQNFromConfig example_spec example_network 0
        (example_store (DQNConfig_defaults\<lparr>epsilon := Finite 0\<rparr>)) = Inr (ag, s') \<and>
      lookup s' (agent_actor ag) = Some (ActorObj a) \<and>
      policy (a_policy a) s' 3 (0, 0) 5 = Inr 1)"
proof -
  let ?cfg = "DQNConfig_defaults\<lparr>epsilon := Finite 0\<rparr>"
  have cfg: "get_config (example_store ?cfg) 0 = Inr ?cfg"
    by (rule get_config_example)
  have zero: "is_zero (epsilon ?cfg)"
    by simp
  have div: "py_truediv (batch_size ?cfg) (samples_per_insert ?cfg) = Inr (Finite 512)"
    by (simp add: DQNConfig_defaults_def float_lit_half truediv_256_half)
  have out: "net_apply example_network 3 5 = [Finite 3, Finite 5]"
    by (simp add: example_network_def)
  have nonempty: "net_apply example_network 3 5 \<noteq> []"
    and nan: "NaN \<notin> set (net_apply example_network 3 5)"
    by (simp_all add: out)
  from greedy_when_epsilon_zero [OF cfg zero div nonempty nan, of example_spec "(0, 0)"]
  obtain ag s' a act where run:
    "DQNFromConfig example_spec example_network 0 (example_store ?cfg) = Inr (ag, s')"
    "lookup s' (agent_actor ag) = Some (ActorObj a)"
    "policy (a_policy a) s' 3 (0, 0) 5 = Inr act"
    "act < length (net_apply example_network 3 5)"
    "\<forall>v \<in> set (net_apply example_network 3 5). float_le v (net_apply example_network 3 5 ! act)"
    by blast
  from run(4,5) have "act = 1"
    by (cases act) (simp_all add: out float_le_def)
  with run(1-3) cfg out show ?thesis
    by blast
qed

section \<open>The configuration object\<close>

lemma get_config_update:
  "c < length s \<Longrightarrow> get_config (s[c := ConfigObj cfg]) c = Inr cfg"
  by (simp add: get_config_def lookup_def)

text \<open>
  Claim C7, as stated, fails: \<^verbatim>\<open>DQNConfig\<close> is not a frozen dataclass, so an assignment
  to a field of a constructed configuration succeeds and changes the field.
\<close>

theorem config_assign_succeeds:
  "config_assign 0 (Kw_seed 7) (example_store DQNConfig_defaults)
     = Inr (example_store (DQNConfig_defaults\<lparr>seed := 7\<rparr>)) \<and>
   seed DQNConfig_defaults = 1"
proof
  show "config_assign 0 (Kw_seed 7) (example_store DQNConfig_defaults)
          = Inr (example_store (DQNConfig_defaults\<lparr>seed := 7\<rparr>))"
    by (simp add: config_assign_def get_config_def lookup_def DQNConfig_frozen_def
        example_store_def)
  show "seed DQNConfig_defaults = 1"
    by (simp add: DQNConfig_defaults_def)
qed

text \<open>
  Claim C7, amended. No operation of the program mutates a configuration: after
  \<^verbatim>\<open>DQNFromConfig\<close> every object that was in the store, the configuration among them, is
  as it was, and after the legacy \<^verbatim>\<open>DQN\<close> so is the configuration it created. The record
  itself stays mutable through its public interface: assigning a field of a
  configuration object stores the value.
\<close>

theorem constructors_only_read_config:
  "(\<forall>ag s'. DQNFromConfig env net c s = Inr (ag, s') \<longrightarrow> take (length s) s' = s) \<and>
   (\<forall>ag s'. DQN env net kwargs s = Inr (ag, s') \<longrightarrow>
      (\<exists>cfg. DQN_config kwargs = Inr cfg \<and> take (Suc (length s)) s' = s @ [ConfigObj cfg])) \<and>
   (\<forall>cfg. get_config s c = Inr cfg \<longrightarrow>
      config_assign c kw s = Inr (s[c := ConfigObj (setattr kw cfg)]))"
proof (intro conjI allI impI)
  fix ag s'
  assume run: "DQNFromConfig env net c s = Inr (ag, s')"
  then obtain cfg where cfg: "get_config s c = Inr cfg"
    by (cases "get_config s c") (simp_all add: DQNFromConfig_def)
  from run show "take (length s) s' = s"
    by (auto simp: DQNFromConfig_result [OF cfg] split: sum.splits)
next
  fix ag s'
  assume run: "DQN env net kwargs s = Inr (ag, s')"
  then obtain cfg where cfg: "DQN_config kwargs = Inr cfg"
    by (cases "DQN_config kwargs") (simp_all add: DQN_def)
  have "get_config (s @ [ConfigObj cfg]) (length s) = Inr cfg"
    by (simp add: get_config_def lookup_def)
  from run cfg DQNFromConfig_result [OF this, of env net]
  have "take (Suc (length s)) s' = s @ [ConfigObj cfg]"
    by (auto simp: DQN_def new_object_def split: sum.splits)
  with cfg show "\<exists>cfg. DQN_config kwargs = Inr cfg \<and> take (Suc (length s)) s' = s @ [ConfigObj cfg]"
    by blast
next
  fix cfg
  assume "get_config s c = Inr cfg"
  then show "config_assign c kw s = Inr (s[c := ConfigObj (setattr kw cfg)])"
    by (simp add: config_assign_def DQNConfig_frozen_def)
qed

theorem constructors_only_read_config_witness:
  "(\<exists>ag s'. DQNFromConfig example_spec example_network 0 (example_store DQNConfig_defaults)
               = Inr (ag, s') \<and>
             take 1 s' = example_store DQNConfig_defaults) \<and>
   (\<exists>ag s'. DQN example_spec example_network [] (example_store DQNConfig_defaults)
               = Inr (ag, s') \<and>
             take 2 s' = [ConfigObj DQNConfig_defaults, ConfigObj DQNConfig_defaults]) \<and>
   config_assign 0 (Kw_batch_size 64) (example_store DQNConfig_defaults)
     = Inr (example_store (DQNConfig_defaults\<lparr>batch_size := 64\<rparr>))"
proof -
  let ?s = "example_store DQNConfig_defaults"
  have cfg: "get_config ?s 0 = Inr DQNConfig_defaults"
    by (rule get_config_example)
  have div: "py_truediv (batch_size DQNConfig_defaults) (samples_per_insert DQNConfig_defaults)
               = Inr (Finite 512)"
    by (simp add: DQNConfig_defaults_def float_lit_half truediv_256_half)
  obtain ag1 s1 where run1: "DQNFromConfig example_spec example_network 0 ?s = Inr (ag1, s1)"
    using DQNFromConfig_result [OF cfg, of example_spec example_network] div by simp
  have legacy: "DQN_config [] = Inr DQNConfig_defaults"
    by (simp add: DQN_config_accepts keywords_ok_def DQNConfig_init_def)
  have cfg2: "get_config (?s @ [ConfigObj DQNConfig_defaults]) (length ?s) = Inr DQNConfig_defaults"
    by (simp add: get_config_def lookup_def)
  obtain ag2 s2 where run2: "DQN example_spec example_network [] ?s = Inr (ag2, s2)"
    using DQNFromConfig_result [OF cfg2, of example_spec example_network] div legacy
    by (simp add: DQN_def new_object_def)
  note facts = constructors_only_read_config
    [of example_spec example_network 0 ?s "[]" "Kw_batch_size 64"]
  from facts run1 have "take (length ?s) s1 = ?s"
    by blast
  moreover from facts run2 legacy
  have "take (Suc (length ?s)) s2 = ?s @ [ConfigObj DQNConfig_defaults]"
    by auto
  moreover from facts cfg
  have "config_assign 0 (Kw_batch_size 64) ?s
          = Inr (?s[0 := ConfigObj (setattr (Kw_batch_size 64) DQNConfig_defaults)])"
    by blast
  ultimately show ?thesis
    using run1 run2 by (auto simp: example_store_def numeral_2_eq_2)
qed

section \<open>The prefetch size\<close>

text \<open>
  Claim C9. Changing only \<open>prefetch_size\<close> in the configuration changes nothing that
  \<^verbatim>\<open>DQNFromConfig\<close> builds: the same exception or the same agent, and resulting stores
  that differ in the configuration object alone.
\<close>

theorem prefetch_size_unused:
  assumes "get_config s c = Inr cfg"
  shows "DQNFromConfig env net c (s[c := ConfigObj (cfg\<lparr>prefetch_size := p\<rparr>)])
           = map_sum id (\<lambda>(ag, s'). (ag, s'[c := ConfigObj (cfg\<lparr>prefetch_size := p\<rparr>)]))
               (DQNFromConfig env net c s)"
proof -
  from assms have bound: "c < length s"
    by (rule get_config_bound)
  then have "get_config (s[c := ConfigObj (cfg\<lparr>prefetch_size := p\<rparr>)]) c
               = Inr (cfg\<lparr>prefetch_size := p\<rparr>)"
    by (rule get_config_update)
  from DQNFromConfig_result [OF this, of env net] DQNFromConfig_result [OF assms, of env net] bound
  show ?thesis
    by (simp add: list_update_append split: sum.splits)
qed

theorem prefetch_size_unused_witness:
  "get_config (example_store DQNConfig_defaults) 0 = Inr DQNConfig_defaults \<and>
   map_sum id fst (DQNFromConfig example_spec example_network 0
                     (example_store (DQNConfig_defaults\<lparr>prefetch_size := 16\<rparr>)))
     = map_sum id fst (DQNFromConfig example_spec example_network 0
                         (example_store DQNConfig_defaults))"
proof -
  have cfg: "get_config (example_store DQNConfig_defaults) 0 = Inr DQNConfig_defaults"
    by (rule get_config_example)
  have "example_store (DQNConfig_defaults\<lparr>prefetch_size := 16\<rparr>)
          = (example_store DQNConfig_defaults)[0 := ConfigObj (DQNConfig_defaults\<lparr>prefetch_size := 16\<rparr>)]"
    by (simp add: example_store_def)
  with prefetch_size_unused [OF cfg, of example_spec example_network 16] cfg
  show ?thesis
    by (cases "DQNFromConfig example_spec example_network 0 (example_store DQNConfig_defaults)")
      auto
qed

end
